theory Spec2Isabelle
  imports Main "HOL-Library.Word"
begin

section \<open>Go values used by both packages\<close>

text \<open>
  A Go \<open>error\<close> value is identified by its message. A function returning
  \<open>(T, error)\<close> is modelled as returning the pair of the value and an
  \<open>error option\<close> (\<open>None\<close> is Go's \<open>nil\<close> error) wherever the source reads
  the value without looking at the error first, and as a sum where every \<open>return\<close> of
  the source has one of the two shapes \<open>(v, nil)\<close> and \<open>(nil, err)\<close>.
  Log output is not part of the model.
\<close>

datatype error = Error string

section \<open>Package docker/client: the network-resource cache\<close>

subsection \<open>The runtime's records\<close>

text \<open>
  Of \<open>types.NetworkResource\<close> the code reads \<open>ID\<close> and the \<open>Subnet\<close> of the entries
  of \<open>IPAM.Config\<close>; the records keep these fields and the name.
\<close>

record IPAMConfig =
  Subnet :: string
  Gateway :: string

record IPAM_t =
  Config :: "IPAMConfig list"

record NetworkResource =
  Name :: string
  ID :: string
  IPAM :: IPAM_t

subsection \<open>poolFromNR\<close>

text \<open>
  The \<open>for _, c := range nr.IPAM.Config\<close> loop of \<open>poolFromNR\<close>, returning from
  inside the loop at the first entry whose subnet is not the empty string, and
  \<open>("", fmt.Errorf("pool not found"))\<close> after the loop.
\<close>

fun poolFromNR_range :: "IPAMConfig list \<Rightarrow> string \<times> error option" where
  "poolFromNR_range [] = ('''', Some (Error ''pool not found''))"
| "poolFromNR_range (c # cs) =
     (if Subnet c \<noteq> '''' then (Subnet c, None) else poolFromNR_range cs)"

definition poolFromNR :: "NetworkResource \<Rightarrow> string \<times> error option" where
  "poolFromNR nr = poolFromNR_range (Config (IPAM nr))"

subsection \<open>The client and its two indexes\<close>

text \<open>
  A \<open>*types.NetworkResource\<close> is an address in a store of records. The address of the
  local variable \<open>nr\<close> of \<open>GetNetworkResourceByID\<close> is a fresh one at every call that
  reaches \<open>&nr\<close>; the code never writes through such a pointer. The two Go maps hold
  addresses, so that two entries are the identical record exactly when the addresses are
  equal.

  The runtime behind \<open>c.dc\<close> is a state of an arbitrary type \<open>'d\<close>, and each call of its
  API is a function of that state which returns the next one. The mutex operations, the
  API calls and the writes to the two maps are recorded, in program order, in \<open>events\<close>.
\<close>

type_synonym ptr = nat

datatype event =
    RLock | RUnlock | Lock | Unlock
  | NetworkInspect_call string
  | NetworkList_call string string
  | nrByID_store string ptr
  | nrByPool_store string ptr

record 'd DockerAPI =
  NetworkInspect :: "string \<Rightarrow> 'd \<Rightarrow> (NetworkResource \<times> error option) \<times> 'd"
  NetworkList :: "string \<Rightarrow> string \<Rightarrow> 'd \<Rightarrow> (NetworkResource list \<times> error option) \<times> 'd"

record 'd Client =
  dc :: 'd
  store :: "ptr \<Rightarrow> NetworkResource"
  next_ptr :: ptr
  nrByID :: "string \<rightharpoonup> ptr"
  nrByPool :: "string \<rightharpoonup> ptr"
  events :: "event list"

definition networkDriverName :: string where
  "networkDriverName = ''vxrNet''"

text \<open>\<open>NewClient\<close> after a successful \<open>client.NewEnvClient()\<close>: both maps empty.\<close>

definition NewClient :: "'d \<Rightarrow> (ptr \<Rightarrow> NetworkResource) \<Rightarrow> 'd Client" where
  "NewClient d mem =
     \<lparr>dc = d, store = mem, next_ptr = 0, nrByID = Map.empty, nrByPool = Map.empty,
      events = []\<rparr>"

definition emit :: "event \<Rightarrow> 'd Client \<Rightarrow> 'd Client" where
  "emit e c = c\<lparr>events := events c @ [e]\<rparr>"

text \<open>\<open>&nr\<close>: the record is placed at the next free address.\<close>

definition address_of :: "NetworkResource \<Rightarrow> 'd Client \<Rightarrow> ptr \<times> 'd Client" where
  "address_of nr c =
     (next_ptr c, c\<lparr>store := (store c)(next_ptr c := nr), next_ptr := Suc (next_ptr c)\<rparr>)"

definition call_NetworkInspect ::
  "'d DockerAPI \<Rightarrow> string \<Rightarrow> 'd Client \<Rightarrow> (NetworkResource \<times> error option) \<times> 'd Client" where
  "call_NetworkInspect api nid c =
     (case NetworkInspect api nid (dc c) of
        (res, d') \<Rightarrow> (res, emit (NetworkInspect_call nid) (c\<lparr>dc := d'\<rparr>)))"

definition call_NetworkList ::
  "'d DockerAPI \<Rightarrow> string \<Rightarrow> string \<Rightarrow> 'd Client
     \<Rightarrow> (NetworkResource list \<times> error option) \<times> 'd Client" where
  "call_NetworkList api k v c =
     (case NetworkList api k v (dc c) of
        (res, d') \<Rightarrow> (res, emit (NetworkList_call k v) (c\<lparr>dc := d'\<rparr>)))"

text \<open>
  \<open>cacheNetworkResource\<close>: \<open>Lock\<close>, the deferred \<open>Unlock\<close> on both ways out, and the early
  return when no pool can be derived.
\<close>

definition cacheNetworkResource :: "ptr \<Rightarrow> 'd Client \<Rightarrow> 'd Client" where
  "cacheNetworkResource nr c =
     (let c1 = emit Lock c in
      case poolFromNR (store c1 nr) of
        (pool, Some e) \<Rightarrow> emit Unlock c1
      | (pool, None) \<Rightarrow>
          (let c2 = emit (nrByID_store (ID (store c1 nr)) nr)
                      (c1\<lparr>nrByID := (nrByID c1)(ID (store c1 nr) \<mapsto> nr)\<rparr>);
               c3 = emit (nrByPool_store pool nr)
                      (c2\<lparr>nrByPool := (nrByPool c2)(pool \<mapsto> nr)\<rparr>)
           in emit Unlock c3))"

definition GetNetworkResourceByID ::
  "'d DockerAPI \<Rightarrow> string \<Rightarrow> 'd Client \<Rightarrow> (error + ptr) \<times> 'd Client" where
  "GetNetworkResourceByID api nid c =
     (let c1 = emit RLock c in
      case nrByID c1 nid of
        Some nr \<Rightarrow> (Inr nr, emit RUnlock c1)
      | None \<Rightarrow>
          (case call_NetworkInspect api nid (emit RUnlock c1) of
             ((nr, Some e), c2) \<Rightarrow> (Inl e, c2)
           | ((nr, None), c2) \<Rightarrow>
               (case address_of nr c2 of
                  (p, c3) \<Rightarrow> (Inr p, cacheNetworkResource p c3))))"

text \<open>
  The \<open>for _, n := range nl\<close> loop of \<open>GetNetworkResourceByPool\<close>: \<open>continue\<close> on a failed
  lookup, \<open>break\<close> at the first resource whose derived pool is the requested one. The
  error of \<open>poolFromNR\<close> is dropped there, so a resource without a subnet compares as
  the empty string.
\<close>

fun GetNetworkResourceByPool_range ::
  "'d DockerAPI \<Rightarrow> string \<Rightarrow> NetworkResource list \<Rightarrow> 'd Client \<Rightarrow> ptr option \<times> 'd Client" where
  "GetNetworkResourceByPool_range api pool [] c = (None, c)"
| "GetNetworkResourceByPool_range api pool (n # nl) c =
     (case GetNetworkResourceByID api (ID n) c of
        (Inl e, c1) \<Rightarrow> GetNetworkResourceByPool_range api pool nl c1
      | (Inr tnr, c1) \<Rightarrow>
          (if fst (poolFromNR (store c1 tnr)) = pool then (Some tnr, c1)
           else GetNetworkResourceByPool_range api pool nl c1))"

definition GetNetworkResourceByPool ::
  "'d DockerAPI \<Rightarrow> string \<Rightarrow> 'd Client \<Rightarrow> (error + ptr option) \<times> 'd Client" where
  "GetNetworkResourceByPool api pool c =
     (let c1 = emit RLock c in
      case nrByPool c1 pool of
        Some nr \<Rightarrow> (Inr (Some nr), emit RUnlock c1)
      | None \<Rightarrow>
          (case call_NetworkList api ''driver'' networkDriverName (emit RUnlock c1) of
             ((nl, Some e), c2) \<Rightarrow> (Inl e, c2)
           | ((nl, None), c2) \<Rightarrow>
               (case GetNetworkResourceByPool_range api pool nl c2 of
                  (nr, c3) \<Rightarrow> (Inr nr, c3))))"

subsection \<open>Sequences of cache operations and the cache invariant\<close>

datatype cache_op = ByID string | ByPool string

fun cache_step :: "'d DockerAPI \<Rightarrow> cache_op \<Rightarrow> 'd Client \<Rightarrow> 'd Client" where
  "cache_step api (ByID nid) c = snd (GetNetworkResourceByID api nid c)"
| "cache_step api (ByPool pool) c = snd (GetNetworkResourceByPool api pool c)"

fun cache_run :: "'d DockerAPI \<Rightarrow> cache_op list \<Rightarrow> 'd Client \<Rightarrow> 'd Client" where
  "cache_run api [] c = c"
| "cache_run api (x # xs) c = cache_run api xs (cache_step api x c)"

text \<open>
  The invariant of the specification: an address found in the ID index is found in the
  Pool index, under the pool derived from the record at that address.
\<close>

definition cache_inv :: "'d Client \<Rightarrow> bool" where
  "cache_inv c \<longleftrightarrow>
     (\<forall>nid p. nrByID c nid = Some p \<longrightarrow>
        snd (poolFromNR (store c p)) = None \<and>
        nrByPool c (fst (poolFromNR (store c p))) = Some p)"

text \<open>
  The runtime reports a pool for one network only: \<open>owner\<close> gives, for every pool that an
  inspect call can report, the ID of the network reported with it.
\<close>

definition pools_owned :: "'d DockerAPI \<Rightarrow> (string \<Rightarrow> string) \<Rightarrow> bool" where
  "pools_owned api owner \<longleftrightarrow>
     (\<forall>nid d nr d'. NetworkInspect api nid d = ((nr, None), d') \<longrightarrow>
        snd (poolFromNR nr) = None \<longrightarrow> owner (fst (poolFromNR nr)) = ID nr)"

text \<open>
  The invariant that the operations keep for such a runtime: the entries of the ID index
  are allocated addresses, and the pool of each belongs to the ID it is stored under.
\<close>

definition cache_owned :: "(string \<Rightarrow> string) \<Rightarrow> 'd Client \<Rightarrow> bool" where
  "cache_owned owner c \<longleftrightarrow>
     (\<forall>nid p. nrByID c nid = Some p \<longrightarrow>
        p < next_ptr c \<and>
        snd (poolFromNR (store c p)) = None \<and>
        nrByPool c (fst (poolFromNR (store c p))) = Some p \<and>
        owner (fst (poolFromNR (store c p))) = nid)"

section \<open>Package vxrIpam: the address allocator\<close>

subsection \<open>Addresses, routes and the protocol's records\<close>

text \<open>
  \<open>net.IP\<close> and \<open>net.IPMask\<close> are byte slices; the code tests an \<open>IP\<close> against
  \<open>nil\<close>, so an \<open>IP\<close> is an optional byte list with \<open>None\<close> for \<open>nil\<close>. Of
  \<open>netlink.Route\<close> the code sets \<open>Dst\<close> and \<open>Gw\<close>; every other field keeps its zero
  value. A Go map read at a missing key gives the zero value of the value type.
\<close>

type_synonym byte = "8 word"
type_synonym IP = "byte list option"
type_synonym IPMask = "byte list"

record IPNet =
  IP :: IP
  Mask :: IPMask

record Route =
  Dst :: "IPNet option"
  Gw :: IP

record RequestPoolRequest =
  AddressSpace :: string
  Pool :: string
  SubPool :: string
  Options :: "string \<rightharpoonup> string"
  V6 :: bool

record RequestPoolResponse =
  PoolID :: string
  Pool :: string
  Data :: "string \<rightharpoonup> string"

record ReleasePoolRequest =
  PoolID :: string

record RequestAddressRequest =
  PoolID :: string
  Address :: string
  Options :: "string \<rightharpoonup> string"

record RequestAddressResponse =
  Address :: string
  Data :: "string \<rightharpoonup> string"

record ReleaseAddressRequest =
  PoolID :: string
  Address :: string

definition map_index :: "(string \<rightharpoonup> string) \<Rightarrow> string \<Rightarrow> string" where
  "map_index m k = (case m k of None \<Rightarrow> '''' | Some v \<Rightarrow> v)"

subsection \<open>What the driver calls\<close>

text \<open>
  The functions of Go's \<open>net\<close> package, of \<open>iputil\<close>, of \<open>netlink\<close> and of the \<open>vxrNet\<close>
  driver are not part of these sources; the allocator is modelled over any
  implementation of them. The pure ones are functions of their arguments. The others
  act on a state \<open>'w\<close> that stands for all the driver reaches (the kernel's routing
  table, the random source, the \<open>vxrNet\<close> driver with its client and cache) and return
  the next state. \<open>ParseCIDR\<close> returns its three results as Go does; \<open>RouteListFiltered\<close>
  stands for the call with family \<open>0\<close> and the filter mask \<open>RT_FILTER_DST\<close>; of
  \<open>ConnectHost\<close> the code keeps the error only; the network resource and the gateway
  come back as pointers, which may be \<open>nil\<close>.
\<close>

record 'w Host =
  ParseCIDR :: "string \<Rightarrow> IP \<times> IPNet option \<times> error option"
  ParseIP :: "string \<Rightarrow> IP"
  IPNet_String :: "IPNet \<Rightarrow> string"
  IPMask_Size :: "IPMask \<Rightarrow> int \<times> int"
  CIDRMask :: "int \<Rightarrow> int \<Rightarrow> IPMask"
  RandAddr :: "IPNet \<Rightarrow> 'w \<Rightarrow> IP \<times> 'w"
  RouteListFiltered :: "Route \<Rightarrow> 'w \<Rightarrow> (Route list \<times> error option) \<times> 'w"
  RouteAdd :: "Route \<Rightarrow> 'w \<Rightarrow> error option \<times> 'w"
  GetNetworkResourceBySubnet ::
    "string \<Rightarrow> 'w \<Rightarrow> (NetworkResource option \<times> error option) \<times> 'w"
  ConnectHost :: "string \<Rightarrow> 'w \<Rightarrow> error option \<times> 'w"
  GetGatewayBySubnet :: "string \<Rightarrow> 'w \<Rightarrow> (IPNet option \<times> error option) \<times> 'w"

text \<open>
  The driver: the fields of the Go struct that are plain values, the state behind its
  \<open>vxrNet\<close> pointer and the kernel in \<open>world\<close>, and the calls made so far, each with what
  it was given and what it returned.
\<close>

datatype call =
    RandAddr_call IPNet IP
  | RouteListFiltered_call Route "Route list" "error option"
  | GetNetworkResourceBySubnet_call string
  | ConnectHost_call string
  | GetGatewayBySubnet_call string
  | RouteAdd_call Route "error option"

record 'w Driver =
  propTime :: int
  respTime :: int
  excludeFirst :: int
  excludeLast :: int
  world :: 'w
  calls :: "call list"

definition NewDriver :: "'w \<Rightarrow> int \<Rightarrow> int \<Rightarrow> int \<Rightarrow> int \<Rightarrow> 'w Driver" where
  "NewDriver w pt rt ef el =
     \<lparr>propTime = pt, respTime = rt, excludeFirst = ef, excludeLast = el, world = w,
      calls = []\<rparr>"

definition called :: "call \<Rightarrow> 'w \<Rightarrow> 'w Driver \<Rightarrow> 'w Driver" where
  "called x w d = d\<lparr>world := w, calls := calls d @ [x]\<rparr>"

definition call_RandAddr :: "'w Host \<Rightarrow> IPNet \<Rightarrow> 'w Driver \<Rightarrow> IP \<times> 'w Driver" where
  "call_RandAddr h subnet d =
     (case RandAddr h subnet (world d) of
        (ip, w) \<Rightarrow> (ip, called (RandAddr_call subnet ip) w d))"

definition call_RouteListFiltered ::
  "'w Host \<Rightarrow> Route \<Rightarrow> 'w Driver \<Rightarrow> (Route list \<times> error option) \<times> 'w Driver" where
  "call_RouteListFiltered h flt d =
     (case RouteListFiltered h flt (world d) of
        ((rs, err), w) \<Rightarrow> ((rs, err), called (RouteListFiltered_call flt rs err) w d))"

definition call_RouteAdd :: "'w Host \<Rightarrow> Route \<Rightarrow> 'w Driver \<Rightarrow> error option \<times> 'w Driver" where
  "call_RouteAdd h rt d =
     (case RouteAdd h rt (world d) of
        (err, w) \<Rightarrow> (err, called (RouteAdd_call rt err) w d))"

definition call_GetNetworkResourceBySubnet ::
  "'w Host \<Rightarrow> string \<Rightarrow> 'w Driver \<Rightarrow> (NetworkResource option \<times> error option) \<times> 'w Driver" where
  "call_GetNetworkResourceBySubnet h pool d =
     (case GetNetworkResourceBySubnet h pool (world d) of
        (res, w) \<Rightarrow> (res, called (GetNetworkResourceBySubnet_call pool) w d))"

definition call_ConnectHost :: "'w Host \<Rightarrow> string \<Rightarrow> 'w Driver \<Rightarrow> error option \<times> 'w Driver" where
  "call_ConnectHost h nid d =
     (case ConnectHost h nid (world d) of
        (err, w) \<Rightarrow> (err, called (ConnectHost_call nid) w d))"

definition call_GetGatewayBySubnet ::
  "'w Host \<Rightarrow> string \<Rightarrow> 'w Driver \<Rightarrow> (IPNet option \<times> error option) \<times> 'w Driver" where
  "call_GetGatewayBySubnet h pool d =
     (case GetGatewayBySubnet h pool (world d) of
        (res, w) \<Rightarrow> (res, called (GetGatewayBySubnet_call pool) w d))"

subsection \<open>The operations of the driver\<close>

text \<open>
  An operation ends by returning a response, by returning an error, or in a run-time
  panic (a \<open>nil\<close> pointer dereference).
\<close>

datatype 'a result = Returned 'a | Failed error | Panic

definition RequestPool ::
  "RequestPoolRequest \<Rightarrow> 'w Driver \<Rightarrow> RequestPoolResponse result \<times> 'w Driver" where
  "RequestPool r d =
     (Returned \<lparr>RequestPoolResponse.PoolID = RequestPoolRequest.Pool r,
                RequestPoolResponse.Pool = RequestPoolRequest.Pool r,
                RequestPoolResponse.Data = Map.empty\<rparr>, d)"

definition ReleasePool :: "ReleasePoolRequest \<Rightarrow> 'w Driver \<Rightarrow> error option \<times> 'w Driver" where
  "ReleasePool r d = (None, d)"

definition ReleaseAddress :: "ReleaseAddressRequest \<Rightarrow> 'w Driver \<Rightarrow> error option \<times> 'w Driver" where
  "ReleaseAddress r d = (None, d)"

text \<open>
  The loop \<open>for len(routes) > 0\<close> of \<open>RequestAddress\<close>, entered with
  \<open>routes = []netlink.Route{{}}\<close>. It has no bound in the source, so not returning is
  the value \<open>None\<close>. The body draws an address only while \<open>addr.IP\<close> is \<open>nil\<close>, and no
  statement of the body sets \<open>addr.IP\<close> back to \<open>nil\<close>.
\<close>

partial_function (option) RequestAddress_for ::
  "'w Host \<Rightarrow> IPNet \<Rightarrow> Route list \<Rightarrow> IPNet \<Rightarrow> 'w Driver
     \<Rightarrow> ((error + IPNet) \<times> 'w Driver) option" where
  "RequestAddress_for h subnet routes addr d =
     (if length routes > 0 then
        (case (if IP addr = None
               then (case call_RandAddr h subnet d of (ip, d0) \<Rightarrow> (addr\<lparr>IP := ip\<rparr>, d0))
               else (addr, d)) of
           (addr1, d1) \<Rightarrow>
             (case call_RouteListFiltered h \<lparr>Dst = Some addr1, Gw = None\<rparr> d1 of
                ((routes1, Some e), d2) \<Rightarrow> Some (Inl e, d2)
              | ((routes1, None), d2) \<Rightarrow> RequestAddress_for h subnet routes1 addr1 d2))
      else Some (Inr addr, d))"

declare RequestAddress_for.simps [code]

text \<open>
  \<open>RequestAddress\<close>. A failed \<open>ParseCIDR\<close> is logged and the function goes on to read
  \<open>subnet.Mask\<close>, which panics when \<open>subnet\<close> is \<open>nil\<close>. After the loop the steps run
  in the order of the source; \<open>gw.IP\<close> is read before \<open>RouteAdd\<close> is called.
\<close>

definition RequestAddress ::
  "'w Host \<Rightarrow> RequestAddressRequest \<Rightarrow> 'w Driver
     \<Rightarrow> (RequestAddressResponse result \<times> 'w Driver) option" where
  "RequestAddress h r d =
     (case ParseCIDR h (RequestAddressRequest.PoolID r) of
        (ip0, None, err) \<Rightarrow> Some (Panic, d)
      | (ip0, Some subnet, err) \<Rightarrow>
          (let addr = \<lparr>IP = ParseIP h (RequestAddressRequest.Address r), Mask = Mask subnet\<rparr> in
           if map_index (RequestAddressRequest.Options r) ''RequestAddressType''
                = ''com.docker.network.gateway''
           then Some (Returned \<lparr>RequestAddressResponse.Address = IPNet_String h addr,
                                 RequestAddressResponse.Data = Map.empty\<rparr>, d)
           else
             (let ml = snd (IPMask_Size h (Mask addr));
                  addr = addr\<lparr>Mask := CIDRMask h ml ml\<rparr>
              in case RequestAddress_for h subnet [\<lparr>Dst = None, Gw = None\<rparr>] addr d of
                   None \<Rightarrow> None
                 | Some (Inl e, d1) \<Rightarrow> Some (Failed e, d1)
                 | Some (Inr addr, d1) \<Rightarrow>
                     Some
                      (case call_GetNetworkResourceBySubnet h (RequestAddressRequest.PoolID r) d1 of
                         ((None, Some e), d2) \<Rightarrow> (Failed e, d2)
                       | ((None, None), d2) \<Rightarrow>
                           (Failed (Error ''failed to get network from pool''), d2)
                       | ((Some nr, err2), d2) \<Rightarrow>
                           (case call_ConnectHost h (ID nr) d2 of
                              (Some e, d3) \<Rightarrow> (Failed e, d3)
                            | (None, d3) \<Rightarrow>
                                (case call_GetGatewayBySubnet h (RequestAddressRequest.PoolID r) d3 of
                                   ((gw, Some e), d4) \<Rightarrow> (Failed e, d4)
                                 | ((None, None), d4) \<Rightarrow> (Panic, d4)
                                 | ((Some gw, None), d4) \<Rightarrow>
                                     (case call_RouteAdd h \<lparr>Dst = Some addr, Gw = IP gw\<rparr> d4 of
                                        (Some e, d5) \<Rightarrow> (Failed e, d5)
                                      | (None, d5) \<Rightarrow>
                                          (Returned
                                             \<lparr>RequestAddressResponse.Address =
                                                IPNet_String h (addr\<lparr>Mask := Mask subnet\<rparr>),
                                              RequestAddressResponse.Data = Map.empty\<rparr>,
                                           d5))))))))"

section \<open>Stand-ins for the examples\<close>

text \<open>
  The examples below run the model on small concrete stand-ins for what lies outside the
  sources: a runtime that knows a fixed list of networks, and a host whose routing table
  is a list of routes, whose random source is a list of the addresses still to be drawn,
  and whose \<open>net\<close> functions know the pool \<open>10.0.0.0/24\<close> and a few of its addresses.
\<close>

definition net_A :: NetworkResource where
  "net_A = \<lparr>Name = ''a'', ID = ''A'',
             IPAM = \<lparr>Config = [\<lparr>Subnet = '''', Gateway = ''''\<rparr>,
                                \<lparr>Subnet = ''10.0.0.0/24'', Gateway = ''10.0.0.1''\<rparr>,
                                \<lparr>Subnet = ''10.9.0.0/24'', Gateway = ''10.9.0.1''\<rparr>]\<rparr>\<rparr>"

definition net_B :: NetworkResource where
  "net_B = \<lparr>Name = ''b'', ID = ''B'',
             IPAM = \<lparr>Config = [\<lparr>Subnet = ''10.0.0.0/24'', Gateway = ''10.0.0.1''\<rparr>]\<rparr>\<rparr>"

definition net_C :: NetworkResource where
  "net_C = \<lparr>Name = ''c'', ID = ''C'',
             IPAM = \<lparr>Config = [\<lparr>Subnet = '''', Gateway = ''''\<rparr>]\<rparr>\<rparr>"

definition net_D :: NetworkResource where
  "net_D = \<lparr>Name = ''d'', ID = ''D'',
             IPAM = \<lparr>Config = [\<lparr>Subnet = ''10.1.0.0/24'', Gateway = ''10.1.0.1''\<rparr>]\<rparr>\<rparr>"

definition zero_NetworkResource :: NetworkResource where
  "zero_NetworkResource = \<lparr>Name = '''', ID = '''', IPAM = \<lparr>Config = []\<rparr>\<rparr>"

fun lookup_network :: "string \<Rightarrow> NetworkResource list \<Rightarrow> NetworkResource \<times> error option" where
  "lookup_network nid [] = (zero_NetworkResource, Some (Error ''no such network''))"
| "lookup_network nid (n # ns) = (if ID n = nid then (n, None) else lookup_network nid ns)"

definition listed_api :: "NetworkResource list \<Rightarrow> unit DockerAPI" where
  "listed_api nets =
     \<lparr>NetworkInspect = (\<lambda>nid d. (lookup_network nid nets, d)),
      NetworkList = (\<lambda>k v d. ((nets, None), d))\<rparr>"

definition new_client :: "unit Client" where
  "new_client = NewClient () (\<lambda>p. zero_NetworkResource)"

definition owner_AD :: "string \<Rightarrow> string" where
  "owner_AD pool = (if pool = ''10.0.0.0/24'' then ''A'' else ''D'')"

record test_world =
  table :: "Route list"
  draws :: "IP list"

definition mask24 :: IPMask where
  "mask24 = [255, 255, 255, 0]"

definition mask32 :: IPMask where
  "mask32 = [255, 255, 255, 255]"

definition test_ParseCIDR :: "string \<Rightarrow> IP \<times> IPNet option \<times> error option" where
  "test_ParseCIDR s =
     (if s = ''10.0.0.0/24''
      then (Some [10, 0, 0, 0], Some \<lparr>IP = Some [10, 0, 0, 0], Mask = mask24\<rparr>, None)
      else (None, None, Some (Error ''invalid CIDR address'')))"

definition test_ParseIP :: "string \<Rightarrow> IP" where
  "test_ParseIP s =
     (if s = ''10.0.0.1'' then Some [10, 0, 0, 1]
      else if s = ''10.0.0.5'' then Some [10, 0, 0, 5]
      else None)"

definition test_String :: "IPNet \<Rightarrow> string" where
  "test_String n =
     (if IP n = None then ''<nil>''
      else if n = \<lparr>IP = Some [10, 0, 0, 1], Mask = mask24\<rparr> then ''10.0.0.1/24''
      else if n = \<lparr>IP = Some [10, 0, 0, 5], Mask = mask24\<rparr> then ''10.0.0.5/24''
      else if n = \<lparr>IP = Some [10, 0, 0, 7], Mask = mask24\<rparr> then ''10.0.0.7/24''
      else ''?'')"

definition test_Size :: "IPMask \<Rightarrow> int \<times> int" where
  "test_Size m = (if m = mask24 then (24, 32) else if m = mask32 then (32, 32) else (0, 0))"

definition test_CIDRMask :: "int \<Rightarrow> int \<Rightarrow> IPMask" where
  "test_CIDRMask ones bits =
     (if ones = 32 \<and> bits = 32 then mask32 else if ones = 24 \<and> bits = 32 then mask24 else [])"

definition test_RandAddr :: "IPNet \<Rightarrow> test_world \<Rightarrow> IP \<times> test_world" where
  "test_RandAddr subnet w =
     (case draws w of [] \<Rightarrow> (None, w) | ip # rest \<Rightarrow> (ip, w\<lparr>draws := rest\<rparr>))"

definition test_RouteListFiltered ::
  "Route \<Rightarrow> test_world \<Rightarrow> (Route list \<times> error option) \<times> test_world" where
  "test_RouteListFiltered flt w = ((filter (\<lambda>rt. Dst rt = Dst flt) (table w), None), w)"

definition test_RouteAdd :: "Route \<Rightarrow> test_world \<Rightarrow> error option \<times> test_world" where
  "test_RouteAdd rt w = (None, w\<lparr>table := table w @ [rt]\<rparr>)"

definition test_host :: "test_world Host" where
  "test_host =
     \<lparr>ParseCIDR = test_ParseCIDR, ParseIP = test_ParseIP, IPNet_String = test_String,
      IPMask_Size = test_Size, CIDRMask = test_CIDRMask, RandAddr = test_RandAddr,
      RouteListFiltered = test_RouteListFiltered, RouteAdd = test_RouteAdd,
      GetNetworkResourceBySubnet =
        (\<lambda>pool w. ((if pool = ''10.0.0.0/24'' then Some net_A else None, None), w)),
      ConnectHost = (\<lambda>nid w. (None, w)),
      GetGatewayBySubnet =
        (\<lambda>pool w. ((Some \<lparr>IP = Some [10, 0, 0, 1], Mask = mask24\<rparr>, None), w))\<rparr>"

definition route_5 :: Route where
  "route_5 = \<lparr>Dst = Some \<lparr>IP = Some [10, 0, 0, 5], Mask = mask32\<rparr>, Gw = Some [10, 0, 0, 1]\<rparr>"

definition test_driver :: "test_world Driver" where
  "test_driver = NewDriver \<lparr>table = [route_5], draws = [Some [10, 0, 0, 7]]\<rparr> 100 10000 0 0"

definition host_request :: "string \<Rightarrow> RequestAddressRequest" where
  "host_request a =
     \<lparr>RequestAddressRequest.PoolID = ''10.0.0.0/24'', RequestAddressRequest.Address = a,
      RequestAddressRequest.Options = Map.empty\<rparr>"

definition gateway_request :: "string \<Rightarrow> RequestAddressRequest" where
  "gateway_request a =
     \<lparr>RequestAddressRequest.PoolID = ''10.0.0.0/24'', RequestAddressRequest.Address = a,
      RequestAddressRequest.Options =
        [''RequestAddressType'' \<mapsto> ''com.docker.network.gateway'']\<rparr>"

definition unparsed_pool_gateway_request :: "string \<Rightarrow> RequestAddressRequest" where
  "unparsed_pool_gateway_request a =
     \<lparr>RequestAddressRequest.PoolID = ''not-a-cidr'', RequestAddressRequest.Address = a,
      RequestAddressRequest.Options =
        [''RequestAddressType'' \<mapsto> ''com.docker.network.gateway'']\<rparr>"

definition test_driver_draws :: "IP list \<Rightarrow> test_world Driver" where
  "test_driver_draws ds = NewDriver \<lparr>table = [route_5], draws = ds\<rparr> 100 10000 0 0"



section \<open>The cache: pool derivation, lookup by ID, the invariant\<close>

subsection \<open>Pool derivation\<close>

lemma poolFromNR_range_skip:
  "\<forall>x\<in>set pre. Subnet x = '''' \<Longrightarrow> poolFromNR_range (pre @ cs) = poolFromNR_range cs"
  by (induction pre) auto

lemma poolFromNR_range_none:
  "snd (poolFromNR_range cs) \<noteq> None \<Longrightarrow> \<forall>c\<in>set cs. Subnet c = ''''"
  by (induction cs) (auto split: if_splits)

text \<open>
  Claim C7. Deriving a pool from a NetworkResource goes through its IPAM configuration
  entries in their order and returns the subnet of the first entry whose subnet is not
  empty, whatever the entries after it are and skipping the empty ones before it; it
  fails with the error \<open>pool not found\<close> when every entry has an empty subnet, and it
  fails in no other case.
\<close>

theorem poolFromNR_first_nonempty_subnet:
  "(\<forall>pre c post. Config (IPAM nr) = pre @ c # post \<and> (\<forall>x\<in>set pre. Subnet x = '''')
        \<and> Subnet c \<noteq> '''' \<longrightarrow> poolFromNR nr = (Subnet c, None))
   \<and> ((\<forall>c\<in>set (Config (IPAM nr)). Subnet c = '''')
        \<longrightarrow> poolFromNR nr = ('''', Some (Error ''pool not found'')))
   \<and> (snd (poolFromNR nr) \<noteq> None \<longrightarrow> (\<forall>c\<in>set (Config (IPAM nr)). Subnet c = ''''))"
proof (intro conjI allI impI)
  fix pre c post
  assume h: "Config (IPAM nr) = pre @ c # post \<and> (\<forall>x\<in>set pre. Subnet x = '''')
               \<and> Subnet c \<noteq> ''''"
  then have "poolFromNR_range (pre @ c # post) = poolFromNR_range (c # post)"
    using poolFromNR_range_skip by blast
  with h show "poolFromNR nr = (Subnet c, None)"
    by (simp add: poolFromNR_def)
next
  assume "\<forall>c\<in>set (Config (IPAM nr)). Subnet c = ''''"
  then have "poolFromNR_range (Config (IPAM nr) @ []) = poolFromNR_range []"
    by (rule poolFromNR_range_skip)
  then show "poolFromNR nr = ('''', Some (Error ''pool not found''))"
    by (simp add: poolFromNR_def)
next
  assume "snd (poolFromNR nr) \<noteq> None"
  then show "\<forall>c\<in>set (Config (IPAM nr)). Subnet c = ''''"
    unfolding poolFromNR_def by (rule poolFromNR_range_none)
qed

text \<open>
  The network \<open>net_A\<close> has an entry without subnet, then \<open>10.0.0.0/24\<close>, then
  \<open>10.9.0.0/24\<close>; the network \<open>net_C\<close> has one entry, without subnet.
\<close>

theorem poolFromNR_first_nonempty_subnet_witness:
  "poolFromNR net_A = (''10.0.0.0/24'', None)
   \<and> poolFromNR net_C = ('''', Some (Error ''pool not found''))"
proof -
  have a: "Config (IPAM net_A) = [\<lparr>Subnet = '''', Gateway = ''''\<rparr>]
             @ \<lparr>Subnet = ''10.0.0.0/24'', Gateway = ''10.0.0.1''\<rparr>
             # [\<lparr>Subnet = ''10.9.0.0/24'', Gateway = ''10.9.0.1''\<rparr>]
           \<and> (\<forall>x\<in>set [\<lparr>Subnet = '''', Gateway = ''''\<rparr>]. Subnet x = '''')
           \<and> Subnet \<lparr>Subnet = ''10.0.0.0/24'', Gateway = ''10.0.0.1''\<rparr> \<noteq> ''''"
    by (simp add: net_A_def)
  have c: "\<forall>c\<in>set (Config (IPAM net_C)). Subnet c = ''''"
    by (simp add: net_C_def)
  from poolFromNR_first_nonempty_subnet [of net_A] a
  have "poolFromNR net_A = (Subnet \<lparr>Subnet = ''10.0.0.0/24'', Gateway = ''10.0.0.1''\<rparr>, None)"
    by blast
  moreover from poolFromNR_first_nonempty_subnet [of net_C] c
  have "poolFromNR net_C = ('''', Some (Error ''pool not found''))"
    by blast
  ultimately show ?thesis by simp
qed

subsection \<open>Lookup by ID on a miss\<close>

text \<open>
  Claim C3, as stated: on a miss with a successful inspect call the fetched resource is
  in both indexes when the lookup returns. It fails for a resource none of whose
  entries has a subnet: the lookup of \<open>net_C\<close> in the empty cache misses, the inspect
  call succeeds, the lookup returns the address of the fetched record, and the ID index
  has no entry for it.
\<close>

theorem lookup_miss_counterexample:
  "nrByID new_client ''C'' = None
   \<and> NetworkInspect (listed_api [net_C]) ''C'' (dc new_client) = ((net_C, None), ())
   \<and> fst (GetNetworkResourceByID (listed_api [net_C]) ''C'' new_client) = Inr 0
   \<and> store (snd (GetNetworkResourceByID (listed_api [net_C]) ''C'' new_client)) 0 = net_C
   \<and> nrByID (snd (GetNetworkResourceByID (listed_api [net_C]) ''C'' new_client)) (ID net_C)
        = None"
  by (simp add: GetNetworkResourceByID_def call_NetworkInspect_def address_of_def
      cacheNetworkResource_def emit_def poolFromNR_def listed_api_def new_client_def
      NewClient_def net_C_def)

text \<open>
  Claim C3, amended. A lookup by ID that misses releases the read lock and makes one
  inspect call. When the call fails, the error is returned and neither index is
  modified. When it succeeds, the address of the fetched record is returned; if a pool
  can be derived from the record, the address is stored in the ID index under the ID
  the record carries and in the Pool index under the derived pool, both between one
  \<open>Lock\<close> and its \<open>Unlock\<close>, before the lookup returns; if no pool can be derived, the
  lock is taken and released and neither index is modified.
\<close>

theorem lookup_miss:
  assumes "nrByID c nid = None"
    and "NetworkInspect api nid (dc c) = ((nr, err), d')"
  shows "(\<forall>e. err = Some e \<longrightarrow>
            GetNetworkResourceByID api nid c =
              (Inl e,
               c\<lparr>dc := d', events := events c @ [RLock, RUnlock, NetworkInspect_call nid]\<rparr>))
       \<and> (\<forall>pool. err = None \<and> poolFromNR nr = (pool, None) \<longrightarrow>
            GetNetworkResourceByID api nid c =
              (Inr (next_ptr c),
               c\<lparr>dc := d', store := (store c)(next_ptr c := nr), next_ptr := Suc (next_ptr c),
                 nrByID := (nrByID c)(ID nr \<mapsto> next_ptr c),
                 nrByPool := (nrByPool c)(pool \<mapsto> next_ptr c),
                 events := events c @ [RLock, RUnlock, NetworkInspect_call nid, Lock,
                             nrByID_store (ID nr) (next_ptr c),
                             nrByPool_store pool (next_ptr c), Unlock]\<rparr>))
       \<and> (\<forall>pool e. err = None \<and> poolFromNR nr = (pool, Some e) \<longrightarrow>
            GetNetworkResourceByID api nid c =
              (Inr (next_ptr c),
               c\<lparr>dc := d', store := (store c)(next_ptr c := nr), next_ptr := Suc (next_ptr c),
                 events := events c @ [RLock, RUnlock, NetworkInspect_call nid, Lock,
                             Unlock]\<rparr>))"
  using assms
  by (simp add: GetNetworkResourceByID_def call_NetworkInspect_def address_of_def
      cacheNetworkResource_def emit_def)

theorem lookup_miss_witness:
  "GetNetworkResourceByID (listed_api [net_A, net_D]) ''D'' new_client =
     (Inr 0,
      new_client\<lparr>store := (store new_client)(0 := net_D), next_ptr := 1,
        nrByID := [''D'' \<mapsto> 0], nrByPool := [''10.1.0.0/24'' \<mapsto> 0],
        events := [RLock, RUnlock, NetworkInspect_call ''D'', Lock, nrByID_store ''D'' 0,
                   nrByPool_store ''10.1.0.0/24'' 0, Unlock]\<rparr>)
   \<and> GetNetworkResourceByID (listed_api [net_A, net_D]) ''X'' new_client =
     (Inl (Error ''no such network''),
      new_client\<lparr>events := [RLock, RUnlock, NetworkInspect_call ''X'']\<rparr>)
   \<and> GetNetworkResourceByID (listed_api [net_C]) ''C'' new_client =
     (Inr 0,
      new_client\<lparr>store := (store new_client)(0 := net_C), next_ptr := 1,
        events := [RLock, RUnlock, NetworkInspect_call ''C'', Lock, Unlock]\<rparr>)"
proof -
  have m: "nrByID new_client ''D'' = None" "nrByID new_client ''X'' = None"
    "nrByID new_client ''C'' = None"
    by (simp_all add: new_client_def NewClient_def)
  have i: "NetworkInspect (listed_api [net_A, net_D]) ''D'' (dc new_client)
             = ((net_D, None), ())"
    by (simp add: listed_api_def net_A_def net_D_def)
  have x: "NetworkInspect (listed_api [net_A, net_D]) ''X'' (dc new_client)
             = ((zero_NetworkResource, Some (Error ''no such network'')), ())"
    by (simp add: listed_api_def net_A_def net_D_def)
  have c: "NetworkInspect (listed_api [net_C]) ''C'' (dc new_client) = ((net_C, None), ())"
    by (simp add: listed_api_def net_C_def)
  have p: "poolFromNR net_D = (''10.1.0.0/24'', None)"
    "poolFromNR net_C = ('''', Some (Error ''pool not found''))"
    by (simp_all add: poolFromNR_def net_D_def net_C_def)
  show ?thesis
    using lookup_miss [OF m(1) i] lookup_miss [OF m(2) x] lookup_miss [OF m(3) c] p
    by (simp add: new_client_def NewClient_def net_D_def)
qed

subsection \<open>The cache invariant\<close>

lemma cache_owned_inv: "cache_owned owner c \<Longrightarrow> cache_inv c"
  by (auto simp: cache_owned_def cache_inv_def)

lemma cache_owned_NewClient: "cache_owned owner (NewClient d mem)"
  by (simp add: cache_owned_def NewClient_def)

lemma cache_owned_emit: "cache_owned owner (emit e c) = cache_owned owner c"
  by (simp add: cache_owned_def emit_def)

lemma cache_owned_insert:
  assumes own: "cache_owned owner c"
    and nr: "snd (poolFromNR nr) = None \<longrightarrow> owner (fst (poolFromNR nr)) = ID nr"
  shows "cache_owned owner (cacheNetworkResource (fst (address_of nr c)) (snd (address_of nr c)))"
proof (cases "poolFromNR nr")
  case (Pair pool err)
  show ?thesis
  proof (cases err)
    case (Some e)
    with Pair own show ?thesis
      by (auto simp: cache_owned_def cacheNetworkResource_def address_of_def emit_def
          less_Suc_eq)
  next
    case None
    with Pair nr have o: "owner pool = ID nr" by simp
    show ?thesis
      unfolding cache_owned_def
    proof (intro allI impI)
      fix nid p
      let ?c' = "cacheNetworkResource (fst (address_of nr c)) (snd (address_of nr c))"
      assume h: "nrByID ?c' nid = Some p"
      show "p < next_ptr ?c' \<and> snd (poolFromNR (store ?c' p)) = None \<and>
            nrByPool ?c' (fst (poolFromNR (store ?c' p))) = Some p \<and>
            owner (fst (poolFromNR (store ?c' p))) = nid"
      proof (cases "nid = ID nr")
        case True
        with h Pair None o show ?thesis
          by (simp add: cacheNetworkResource_def address_of_def emit_def)
      next
        case False
        with h Pair None have old: "nrByID c nid = Some p"
          by (simp add: cacheNetworkResource_def address_of_def emit_def)
        with own have p: "p < next_ptr c" "snd (poolFromNR (store c p)) = None"
          "nrByPool c (fst (poolFromNR (store c p))) = Some p"
          "owner (fst (poolFromNR (store c p))) = nid"
          by (auto simp: cache_owned_def)
        from p(4) o False have "fst (poolFromNR (store c p)) \<noteq> pool" by auto
        with p Pair None show ?thesis
          by (simp add: cacheNetworkResource_def address_of_def emit_def)
      qed
    qed
  qed
qed

lemma cache_owned_ByID:
  assumes api: "pools_owned api owner" and own: "cache_owned owner c"
  shows "cache_owned owner (snd (GetNetworkResourceByID api nid c))"
proof (cases "nrByID c nid")
  case (Some p)
  with own show ?thesis
    by (simp add: GetNetworkResourceByID_def emit_def cache_owned_def)
next
  case None
  obtain nr err d' where i: "NetworkInspect api nid (dc c) = ((nr, err), d')"
    by (metis surj_pair)
  show ?thesis
  proof (cases err)
    case (Some e)
    with None i own show ?thesis
      by (simp add: GetNetworkResourceByID_def call_NetworkInspect_def emit_def
          cache_owned_def)
  next
    case n: None
    let ?c2 = "emit (NetworkInspect_call nid) (emit RUnlock (emit RLock c)\<lparr>dc := d'\<rparr>)"
    from own have "cache_owned owner ?c2"
      by (simp add: cache_owned_def emit_def)
    moreover from api i n
    have "snd (poolFromNR nr) = None \<longrightarrow> owner (fst (poolFromNR nr)) = ID nr"
      unfolding pools_owned_def by blast
    ultimately have
      "cache_owned owner
         (cacheNetworkResource (fst (address_of nr ?c2)) (snd (address_of nr ?c2)))"
      by (rule cache_owned_insert)
    with None i n show ?thesis
      by (auto simp: GetNetworkResourceByID_def call_NetworkInspect_def emit_def
          split: prod.splits)
  qed
qed

lemma cache_owned_range:
  "pools_owned api owner \<Longrightarrow> cache_owned owner c \<Longrightarrow>
   cache_owned owner (snd (GetNetworkResourceByPool_range api pool nl c))"
proof (induction nl arbitrary: c)
  case Nil
  then show ?case by simp
next
  case (Cons n nl)
  from Cons.prems have "cache_owned owner (snd (GetNetworkResourceByID api (ID n) c))"
    by (rule cache_owned_ByID)
  with Cons.IH [OF Cons.prems(1)] show ?case
    by (auto split: prod.splits sum.splits)
qed

lemma emit_fields:
  "dc (emit e c) = dc c" "nrByID (emit e c) = nrByID c" "nrByPool (emit e c) = nrByPool c"
  "store (emit e c) = store c" "next_ptr (emit e c) = next_ptr c"
  by (simp_all add: emit_def)

lemma cache_owned_ByPool:
  assumes api: "pools_owned api owner" and own: "cache_owned owner c"
  shows "cache_owned owner (snd (GetNetworkResourceByPool api pool c))"
proof -
  obtain nl err d' where
    l: "NetworkList api ''driver'' networkDriverName (dc c) = ((nl, err), d')"
    by (metis surj_pair)
  let ?c2 = "emit (NetworkList_call ''driver'' networkDriverName)
               (emit RUnlock (emit RLock c)\<lparr>dc := d'\<rparr>)"
  from own have c2: "cache_owned owner ?c2"
    by (simp add: cache_owned_def emit_def)
  then have "cache_owned owner (snd (GetNetworkResourceByPool_range api pool nl ?c2))"
    by (rule cache_owned_range [OF api])
  with own c2 l show ?thesis
    by (auto simp: GetNetworkResourceByPool_def call_NetworkList_def Let_def emit_fields
        cache_owned_emit split: option.splits prod.splits)
qed

lemma cache_owned_run:
  "pools_owned api owner \<Longrightarrow> cache_owned owner c \<Longrightarrow> cache_owned owner (cache_run api ops c)"
proof (induction ops arbitrary: c)
  case Nil
  then show ?case by simp
next
  case (Cons x xs)
  have "cache_owned owner (cache_step api x c)"
    using Cons.prems by (cases x) (simp_all add: cache_owned_ByID cache_owned_ByPool)
  with Cons show ?case by simp
qed

text \<open>
  Claim C4, as stated: after any sequence of cache operations every record found in the
  ID index is found in the Pool index under its derived pool, as the identical record.
  It fails when the runtime has two networks with one subnet: after the lookups of \<open>A\<close>
  and \<open>B\<close>, which both have \<open>10.0.0.0/24\<close>, the ID index holds the record of \<open>A\<close> at
  address \<open>0\<close> and the Pool index holds, under that subnet, the record of \<open>B\<close> at
  address \<open>1\<close>.
\<close>

theorem cache_invariant_counterexample:
  "\<not> cache_inv (cache_run (listed_api [net_A, net_B]) [ByID ''A'', ByID ''B''] new_client)"
proof
  assume "cache_inv (cache_run (listed_api [net_A, net_B]) [ByID ''A'', ByID ''B''] new_client)"
  then have
    "nrByID (cache_run (listed_api [net_A, net_B]) [ByID ''A'', ByID ''B''] new_client) ''A''
       = Some 0
     \<longrightarrow> nrByPool (cache_run (listed_api [net_A, net_B]) [ByID ''A'', ByID ''B''] new_client)
           (fst (poolFromNR (store (cache_run (listed_api [net_A, net_B])
                                     [ByID ''A'', ByID ''B''] new_client) 0))) = Some 0"
    unfolding cache_inv_def by blast
  then show False
    by (simp add: GetNetworkResourceByID_def call_NetworkInspect_def address_of_def
      cacheNetworkResource_def emit_def poolFromNR_def listed_api_def new_client_def
      NewClient_def net_A_def net_B_def)
qed

text \<open>
  Claim C4, amended. When the runtime never reports one derived pool for two different
  network IDs, then after any sequence of lookups by ID and by pool, starting from the
  empty cache of \<open>NewClient\<close>, every address found in the ID index is found in the Pool
  index under the pool derived from its record: both entries are the identical record.
\<close>

theorem cache_invariant:
  "pools_owned api owner \<Longrightarrow> cache_inv (cache_run api ops (NewClient d mem))"
  by (rule cache_owned_inv [OF cache_owned_run [OF _ cache_owned_NewClient]])

lemma pools_owned_AD: "pools_owned (listed_api [net_A, net_D]) owner_AD"
  by (auto simp: pools_owned_def listed_api_def owner_AD_def poolFromNR_def net_A_def net_D_def
      zero_NetworkResource_def split: if_splits)

theorem cache_invariant_witness:
  "pools_owned (listed_api [net_A, net_D]) owner_AD
   \<and> cache_inv (cache_run (listed_api [net_A, net_D])
                  [ByID ''A'', ByPool ''10.1.0.0/24'', ByID ''D''] new_client)
   \<and> nrByID (cache_run (listed_api [net_A, net_D])
                  [ByID ''A'', ByPool ''10.1.0.0/24'', ByID ''D''] new_client) ''D'' = Some 1
   \<and> nrByPool (cache_run (listed_api [net_A, net_D])
                  [ByID ''A'', ByPool ''10.1.0.0/24'', ByID ''D''] new_client) ''10.1.0.0/24''
        = Some 1"
proof -
  have "cache_inv (cache_run (listed_api [net_A, net_D])
                  [ByID ''A'', ByPool ''10.1.0.0/24'', ByID ''D''] new_client)"
    unfolding new_client_def by (rule cache_invariant [OF pools_owned_AD])
  moreover have "nrByID (cache_run (listed_api [net_A, net_D])
                  [ByID ''A'', ByPool ''10.1.0.0/24'', ByID ''D''] new_client) ''D'' = Some 1
   \<and> nrByPool (cache_run (listed_api [net_A, net_D])
                  [ByID ''A'', ByPool ''10.1.0.0/24'', ByID ''D''] new_client) ''10.1.0.0/24''
        = Some 1"
    by (simp add: GetNetworkResourceByID_def GetNetworkResourceByPool_def
      call_NetworkInspect_def call_NetworkList_def address_of_def
      cacheNetworkResource_def emit_def poolFromNR_def listed_api_def new_client_def
      NewClient_def net_A_def net_D_def)
  ultimately show ?thesis using pools_owned_AD by simp
qed

section \<open>The allocator\<close>

subsection \<open>Pool requests and releases\<close>

text \<open>
  Claim C8. \<open>RequestPool\<close> returns, without error, a response whose \<open>PoolID\<close> and
  \<open>Pool\<close> are both the requested pool string; it leaves the driver as it was; and the
  response is the same in every state of the driver, that is after every history of
  earlier calls.
\<close>

theorem RequestPool_echo:
  "fst (RequestPool r d) =
     Returned \<lparr>RequestPoolResponse.PoolID = RequestPoolRequest.Pool r,
               RequestPoolResponse.Pool = RequestPoolRequest.Pool r,
               RequestPoolResponse.Data = Map.empty\<rparr>
   \<and> snd (RequestPool r d) = d
   \<and> fst (RequestPool r d') = fst (RequestPool r d)"
  by (simp add: RequestPool_def)

text \<open>
  Claim C9. \<open>ReleaseAddress\<close> and \<open>ReleasePool\<close> return the \<open>nil\<close> error for every
  request and leave the whole driver state as it was: its fields, the state of all it
  reaches (the routing table, the cache of the network driver), and the list of calls
  made, to which nothing is added. In particular no route is removed.
\<close>

theorem Release_no_effect:
  "ReleaseAddress ra d = (None, d) \<and> ReleasePool rp d = (None, d)"
  by (simp add: ReleaseAddress_def ReleasePool_def)

subsection \<open>Address requests: the pool that does not parse\<close>

lemma RequestAddress_nil_subnet:
  "ParseCIDR h (RequestAddressRequest.PoolID r) = (ip0, None, err) \<Longrightarrow>
   RequestAddress h r d = Some (Panic, d)"
  by (simp add: RequestAddress_def)

text \<open>
  Claim C2 says that a request whose pool identifier is not a valid CIDR subnet fails
  with an error returned to the caller. The code logs the error of \<open>ParseCIDR\<close>, does
  not return, and reads \<open>subnet.Mask\<close> of the \<open>nil\<close> subnet: the request with the pool
  identifier \<open>not-a-cidr\<close> ends in a panic, not in a returned error.
\<close>

theorem invalid_pool_panics:
  "RequestAddress test_host
     \<lparr>RequestAddressRequest.PoolID = ''not-a-cidr'', RequestAddressRequest.Address = '''',
      RequestAddressRequest.Options = Map.empty\<rparr> test_driver
   = Some (Panic, test_driver)"
  by (simp add: RequestAddress_def test_host_def test_ParseCIDR_def)

subsection \<open>Address requests: the gateway\<close>




text \<open>
  Claim C10, as stated: every gateway-address request whose address does not parse
  still returns success. It fails when the pool identifier does not parse either: the
  gateway request with the empty address on the pool \<open>not-a-cidr\<close> ends in a panic.
\<close>

theorem gateway_unparsed_address_counterexample:
  "map_index (RequestAddressRequest.Options (unparsed_pool_gateway_request ''''))
     ''RequestAddressType'' = ''com.docker.network.gateway''
   \<and> ParseIP test_host (RequestAddressRequest.Address (unparsed_pool_gateway_request ''''))
       = None
   \<and> RequestAddress test_host (unparsed_pool_gateway_request '''') test_driver
       = Some (Panic, test_driver)"
  by (simp add: RequestAddress_def unparsed_pool_gateway_request_def map_index_def
      test_host_def test_ParseCIDR_def test_ParseIP_def)

text \<open>
  Claim C10, amended. For a gateway-address request whose pool identifier parses as a
  subnet and whose address does not parse, so that \<open>ParseIP\<close> gives the \<open>nil\<close> IP,
  \<open>RequestAddress\<close> returns no error: it returns a response whose address is the string
  of the address with the \<open>nil\<close> IP and the mask of the pool, and leaves the driver
  state as it was.
\<close>

theorem gateway_unparsed_address:
  assumes "ParseCIDR h (RequestAddressRequest.PoolID r) = (ip0, Some subnet, err)"
    and "map_index (RequestAddressRequest.Options r) ''RequestAddressType''
           = ''com.docker.network.gateway''"
    and "ParseIP h (RequestAddressRequest.Address r) = None"
  shows "\<exists>resp. RequestAddress h r d = Some (Returned resp, d)
           \<and> RequestAddressResponse.Address resp
               = IPNet_String h \<lparr>IP = None, Mask = Mask subnet\<rparr>"
  using assms by (simp add: RequestAddress_def)

theorem gateway_unparsed_address_witness:
  "\<exists>resp. RequestAddress test_host (gateway_request '''') test_driver
             = Some (Returned resp, test_driver)
        \<and> RequestAddressResponse.Address resp = ''<nil>''"
proof -
  have p: "ParseCIDR test_host (RequestAddressRequest.PoolID (gateway_request ''''))
             = (Some [10, 0, 0, 0], Some \<lparr>IP = Some [10, 0, 0, 0], Mask = mask24\<rparr>, None)"
    by (simp add: test_host_def gateway_request_def test_ParseCIDR_def)
  have g: "map_index (RequestAddressRequest.Options (gateway_request ''''))
             ''RequestAddressType'' = ''com.docker.network.gateway''"
    by (simp add: gateway_request_def map_index_def)
  have i: "ParseIP test_host (RequestAddressRequest.Address (gateway_request '''')) = None"
    by (simp add: test_host_def gateway_request_def test_ParseIP_def)
  show ?thesis
    using gateway_unparsed_address [OF p g i, of test_driver]
    by (simp add: test_host_def test_String_def)
qed

subsection \<open>Address requests: the candidate loop\<close>





text \<open>
  The loop never returns once its candidate is set and the table keeps a route to it:
  the body neither clears the candidate nor draws another one.
\<close>

lemma RequestAddress_for_spins:
  assumes taken: "\<And>w. I w \<Longrightarrow> \<exists>rs w'. RouteListFiltered h \<lparr>Dst = Some addr, Gw = None\<rparr> w
                      = ((rs, None), w') \<and> rs \<noteq> [] \<and> I w'"
    and "routes \<noteq> []" and "IP addr \<noteq> None" and "I (world d)"
  shows "RequestAddress_for h subnet routes addr d = None"
proof (rule ccontr)
  assume "RequestAddress_for h subnet routes addr d \<noteq> None"
  then obtain y where "RequestAddress_for h subnet routes addr d = Some y" by blast
  then have "routes \<noteq> [] \<longrightarrow> I (world d) \<longrightarrow> IP addr \<noteq> None \<longrightarrow>
      (\<forall>w. I w \<longrightarrow> (\<exists>rs w'. RouteListFiltered h \<lparr>Dst = Some addr, Gw = None\<rparr> w
                      = ((rs, None), w') \<and> rs \<noteq> [] \<and> I w')) \<longrightarrow> False"
  proof (induction rule: RequestAddress_for.raw_induct [rotated 1, consumes 1, case_names step])
    case (step loop h subnet routes addr d y)
    show ?case
    proof (intro impI)
      assume r: "routes \<noteq> []" and i: "I (world d)" and ip: "IP addr \<noteq> None"
        and t: "\<forall>w. I w \<longrightarrow> (\<exists>rs w'. RouteListFiltered h \<lparr>Dst = Some addr, Gw = None\<rparr> w
                      = ((rs, None), w') \<and> rs \<noteq> [] \<and> I w')"
      from t i obtain rs w' where
        q: "RouteListFiltered h \<lparr>Dst = Some addr, Gw = None\<rparr> (world d) = ((rs, None), w')"
        and rs: "rs \<noteq> []" and i': "I w'"
        by blast
      let ?d2 = "called (RouteListFiltered_call \<lparr>Dst = Some addr, Gw = None\<rparr> rs None) w' d"
      from step.hyps r ip q have "loop h subnet rs addr ?d2 = Some y"
        by (simp add: call_RouteListFiltered_def)
      from step.IH [OF this] rs i' ip t show False
        by (simp add: called_def)
    qed
  qed
  with assms show False by blast
qed

lemma test_route_5_taken:
  "route_5 \<in> set (table w) \<Longrightarrow>
   \<exists>rs w'. RouteListFiltered test_host
              \<lparr>Dst = Some \<lparr>IP = Some [10, 0, 0, 5], Mask = mask32\<rparr>, Gw = None\<rparr> w
              = ((rs, None), w') \<and> rs \<noteq> [] \<and> route_5 \<in> set (table w')"
proof -
  assume "route_5 \<in> set (table w)"
  moreover have "Dst route_5 = Some \<lparr>IP = Some [10, 0, 0, 5], Mask = mask32\<rparr>"
    by (simp add: route_5_def)
  ultimately have
    "\<exists>x\<in>set (table w). Dst x = Some \<lparr>IP = Some [10, 0, 0, 5], Mask = mask32\<rparr>"
    by blast
  with \<open>route_5 \<in> set (table w)\<close> show ?thesis
    by (simp add: test_host_def test_RouteListFiltered_def filter_empty_conv)
qed

lemma test_host_calls:
  "RandAddr test_host = test_RandAddr"
  "RouteListFiltered test_host = test_RouteListFiltered"
  by (simp_all add: test_host_def)

lemma test_loop_on_5:
  "route_5 \<in> set (table (world d)) \<Longrightarrow> routes \<noteq> [] \<Longrightarrow>
   RequestAddress_for test_host subnet routes \<lparr>IP = Some [10, 0, 0, 5], Mask = mask32\<rparr> d = None"
  by (rule RequestAddress_for_spins [where I = "\<lambda>w. route_5 \<in> set (table w)"])
     (simp_all add: test_route_5_taken)

text \<open>
  Claim C1 says that a candidate found in the routing table is discarded and a fresh
  address is drawn on the next iteration. The code keeps the candidate and queries the
  table for it again. On a host whose table has a route to \<open>10.0.0.5\<close> and whose random
  source would give the free address \<open>10.0.0.7\<close> next, neither the request that
  supplies \<open>10.0.0.5\<close> nor the request that supplies no address and draws \<open>10.0.0.5\<close>
  first ever returns.
\<close>

theorem taken_candidate_is_never_redrawn:
  "RequestAddress test_host (host_request ''10.0.0.5'') (test_driver_draws [Some [10, 0, 0, 7]])
     = None
   \<and> RequestAddress test_host (host_request '''')
        (test_driver_draws [Some [10, 0, 0, 5], Some [10, 0, 0, 7]]) = None"
proof
  have "RequestAddress_for test_host \<lparr>IP = Some [10, 0, 0, 0], Mask = mask24\<rparr>
          [\<lparr>Dst = None, Gw = None\<rparr>] \<lparr>IP = Some [10, 0, 0, 5], Mask = mask32\<rparr>
          (test_driver_draws [Some [10, 0, 0, 7]]) = None"
    by (rule test_loop_on_5) (simp_all add: test_driver_draws_def NewDriver_def)
  then show "RequestAddress test_host (host_request ''10.0.0.5'')
               (test_driver_draws [Some [10, 0, 0, 7]]) = None"
    by (simp add: RequestAddress_def host_request_def test_host_def test_ParseCIDR_def
        test_ParseIP_def map_index_def test_Size_def test_CIDRMask_def mask24_def mask32_def)
next
  have "RequestAddress_for test_host \<lparr>IP = Some [10, 0, 0, 0], Mask = mask24\<rparr>
          [\<lparr>Dst = None, Gw = None\<rparr>] \<lparr>IP = None, Mask = mask32\<rparr>
          (test_driver_draws [Some [10, 0, 0, 5], Some [10, 0, 0, 7]]) = None"
    by (subst RequestAddress_for.simps)
       (simp add: test_loop_on_5 call_RandAddr_def call_RouteListFiltered_def called_def
          test_host_calls test_RandAddr_def test_RouteListFiltered_def test_driver_draws_def
          NewDriver_def route_5_def)
  then show "RequestAddress test_host (host_request '''')
               (test_driver_draws [Some [10, 0, 0, 5], Some [10, 0, 0, 7]]) = None"
    by (simp add: RequestAddress_def host_request_def test_host_def test_ParseCIDR_def
        test_ParseIP_def map_index_def test_Size_def test_CIDRMask_def mask24_def mask32_def)
qed




end
